theory Spec2Isabelle
  imports Main "HOL-Library.Word"
begin

section \<open>The Attendance contract (contracts/attendance.sol)\<close>

text \<open>
  A shallow embedding of the Solidity contract \<^verbatim>\<open>Attendance\<close>. An \<^verbatim>\<open>address\<close> is a
  160-bit word and \<^verbatim>\<open>address(0)\<close> is \<open>0\<close>; a \<^verbatim>\<open>uint256\<close> is a 256-bit word; a
  \<^verbatim>\<open>string\<close> is a list of bytes. A Solidity \<^verbatim>\<open>mapping\<close> is total (an absent key reads
  as the zero value of the value type), so every mapping is a total function; a mapping
  from \<^verbatim>\<open>string\<close> is keyed by the string itself.
  \<^verbatim>\<open>msg.sender\<close> and \<^verbatim>\<open>block.timestamp\<close> are explicit arguments.
\<close>

type_synonym address = "160 word"
type_synonym uint256 = "256 word"

subsection \<open>Storage\<close>

record Student =
  matricNumber :: string
  name :: string
  isRegistered :: bool
  registrationDate :: uint256

text \<open>
  The third field of the source's \<^verbatim>\<open>AttendanceRecord\<close> is also called
  \<^verbatim>\<open>matricNumber\<close>; it is \<open>recordMatricNumber\<close> here, since two records of one theory
  cannot share a field name without qualification.
\<close>

record AttendanceRecord =
  timestamp :: uint256
  isPresent :: bool
  recordMatricNumber :: string

record Attendance =
  admin :: address
  isSystemActive :: bool
  students :: "address \<Rightarrow> Student"
  matricToAddress :: "string \<Rightarrow> address"
  attendanceRecords :: "address \<Rightarrow> uint256 \<Rightarrow> AttendanceRecord"
  attendanceCount :: "address \<Rightarrow> uint256"
  registeredUsers :: "address list"
  count :: uint256

text \<open>The zero values a mapping reads at a key never written.\<close>

definition zeroStudent :: Student where
  "zeroStudent = \<lparr>matricNumber = [], name = [], isRegistered = False, registrationDate = 0\<rparr>"

definition zeroAttendanceRecord :: AttendanceRecord where
  "zeroAttendanceRecord = \<lparr>timestamp = 0, isPresent = False, recordMatricNumber = []\<rparr>"

subsection \<open>Events and failures\<close>

datatype event =
  AttendanceMarked address string uint256 uint256
| UserRegistered address string string
| SystemStateChanged bool

text \<open>
  A failed \<^verbatim>\<open>require\<close> reverts with its message. Solidity 0.8 checks \<^verbatim>\<open>++\<close> on a
  \<^verbatim>\<open>uint256\<close>: an overflow reverts with \<^verbatim>\<open>Panic(0x11)\<close>.
\<close>

datatype error = Revert string | Panic nat

definition checked_increment :: "uint256 \<Rightarrow> error + uint256" where
  "checked_increment x = (if unat x + 1 < 2 ^ 256 then Inr (x + 1) else Inl (Panic 17))"

subsection \<open>Constructor and state-changing functions\<close>

definition constructor :: "address \<Rightarrow> Attendance" where
  "constructor msg_sender =
     \<lparr>admin = msg_sender,
      isSystemActive = True,
      students = (\<lambda>_. zeroStudent),
      matricToAddress = (\<lambda>_. 0),
      attendanceRecords = (\<lambda>_ _. zeroAttendanceRecord),
      attendanceCount = (\<lambda>_. 0),
      registeredUsers = [],
      count = 0\<rparr>"

text \<open>
  A state-changing function returns either the failure (the transaction reverts and the
  storage stays as it was) or the new storage together with the event it emits.
\<close>

definition registerUser ::
  "Attendance \<Rightarrow> address \<Rightarrow> uint256 \<Rightarrow> address \<Rightarrow> string \<Rightarrow> string \<Rightarrow> error + (Attendance \<times> event)" where
  "registerUser s msg_sender block_timestamp user matric nm =
     (if msg_sender \<noteq> admin s then Inl (Revert ''Only admin can call this function'')
      else if user = 0 then Inl (Revert ''Invalid address'')
      else if \<not> length matric > 0 then Inl (Revert ''Invalid matric number'')
      else if \<not> length nm > 0 then Inl (Revert ''Invalid name'')
      else if isRegistered (students s user) then Inl (Revert ''User already registered'')
      else if matricToAddress s matric \<noteq> 0 then Inl (Revert ''Matric number already registered'')
      else
        (case checked_increment (count s) of
           Inl e \<Rightarrow> Inl e
         | Inr c \<Rightarrow>
             Inr (s\<lparr>students := (students s)(user :=
                       \<lparr>matricNumber = matric, name = nm, isRegistered = True,
                        registrationDate = block_timestamp\<rparr>),
                     matricToAddress := (matricToAddress s)(matric := user),
                     registeredUsers := registeredUsers s @ [user],
                     count := c\<rparr>,
                  UserRegistered user matric nm)))"

text \<open>\<^verbatim>\<open>1 days\<close> is 86400 (seconds); \<^verbatim>\<open>/\<close> on \<^verbatim>\<open>uint256\<close> is unsigned integer division.\<close>

definition today :: "uint256 \<Rightarrow> uint256" where
  "today block_timestamp = block_timestamp div 86400"

definition markAttendance ::
  "Attendance \<Rightarrow> address \<Rightarrow> uint256 \<Rightarrow> error + (Attendance \<times> event)" where
  "markAttendance s msg_sender block_timestamp =
     (if \<not> isSystemActive s then Inl (Revert ''Attendance system is not active'')
      else if \<not> isRegistered (students s msg_sender) then Inl (Revert ''Student not registered'')
      else if isPresent (attendanceRecords s msg_sender (today block_timestamp))
        then Inl (Revert ''Attendance already marked for today'')
      else
        (case checked_increment (attendanceCount s msg_sender) of
           Inl e \<Rightarrow> Inl e
         | Inr c \<Rightarrow>
             Inr (s\<lparr>attendanceRecords := (attendanceRecords s)(msg_sender :=
                       (attendanceRecords s msg_sender)(today block_timestamp :=
                          \<lparr>timestamp = block_timestamp, isPresent = True,
                           recordMatricNumber = matricNumber (students s msg_sender)\<rparr>)),
                     attendanceCount := (attendanceCount s)(msg_sender := c)\<rparr>,
                  AttendanceMarked msg_sender (matricNumber (students s msg_sender))
                    (today block_timestamp) block_timestamp)))"

definition toggleSystem :: "Attendance \<Rightarrow> address \<Rightarrow> error + (Attendance \<times> event)" where
  "toggleSystem s msg_sender =
     (if msg_sender \<noteq> admin s then Inl (Revert ''Only admin can call this function'')
      else Inr (s\<lparr>isSystemActive := \<not> isSystemActive s\<rparr>,
                SystemStateChanged (\<not> isSystemActive s)))"

subsection \<open>View functions\<close>

definition verifyAttendance :: "Attendance \<Rightarrow> address \<Rightarrow> uint256 \<Rightarrow> bool" where
  "verifyAttendance s user date = isPresent (attendanceRecords s user date)"

definition getAttendanceCount :: "Attendance \<Rightarrow> address \<Rightarrow> uint256" where
  "getAttendanceCount s user = attendanceCount s user"

definition getAttendanceRecord :: "Attendance \<Rightarrow> address \<Rightarrow> uint256 \<Rightarrow> uint256 \<times> bool" where
  "getAttendanceRecord s user date =
     (let record = attendanceRecords s user date in (timestamp record, isPresent record))"

definition getRegisteredUsers :: "Attendance \<Rightarrow> address list" where
  "getRegisteredUsers s = registeredUsers s"

text \<open>
  The two student lookups return tuples of different shapes. A returned tuple is the list
  of its values in the order of the \<^verbatim>\<open>return\<close> statement, each tagged with its ABI type,
  so that the two can be compared.
\<close>

datatype abi_value =
  AbiAddress address
| AbiString string
| AbiBool bool
| AbiUint256 uint256

definition getStudentByAddress :: "Attendance \<Rightarrow> address \<Rightarrow> abi_value list" where
  "getStudentByAddress s studentAddress =
     (let student = students s studentAddress in
        [AbiString (matricNumber student),
         AbiString (name student),
         AbiBool (isRegistered student),
         AbiUint256 (registrationDate student)])"

definition getStudentAddressByMatric :: "Attendance \<Rightarrow> string \<Rightarrow> error + address" where
  "getStudentAddressByMatric s matric =
     (let studentAddress = matricToAddress s matric in
        if studentAddress = 0 then Inl (Revert ''Student not found'')
        else Inr studentAddress)"

definition getStudentByMatric :: "Attendance \<Rightarrow> string \<Rightarrow> error + abi_value list" where
  "getStudentByMatric s matric =
     (let studentAddress = matricToAddress s matric in
        if studentAddress = 0 then Inl (Revert ''Student not found'')
        else
          (let student = students s studentAddress in
             Inr [AbiAddress studentAddress,
                  AbiString (name student),
                  AbiBool (isRegistered student),
                  AbiUint256 (registrationDate student)]))"

subsection \<open>Transactions\<close>

text \<open>
  A transaction is a call of one of the three state-changing functions by a sender at a
  block timestamp. A reverted transaction leaves the storage as it was. The states the
  contract can be in are those \<open>run\<close> yields from \<open>constructor\<close>.
\<close>

datatype call =
  RegisterUser address string string
| MarkAttendance
| ToggleSystem

type_synonym transaction = "address \<times> uint256 \<times> call"

fun execute :: "Attendance \<Rightarrow> transaction \<Rightarrow> error + (Attendance \<times> event)" where
  "execute s (msg_sender, block_timestamp, RegisterUser user matric nm) =
     registerUser s msg_sender block_timestamp user matric nm"
| "execute s (msg_sender, block_timestamp, MarkAttendance) =
     markAttendance s msg_sender block_timestamp"
| "execute s (msg_sender, block_timestamp, ToggleSystem) =
     toggleSystem s msg_sender"

definition storage_after :: "Attendance \<Rightarrow> error + (Attendance \<times> event) \<Rightarrow> Attendance" where
  "storage_after s r = (case r of Inl _ \<Rightarrow> s | Inr (s', _) \<Rightarrow> s')"

fun run :: "Attendance \<Rightarrow> transaction list \<Rightarrow> Attendance" where
  "run s [] = s"
| "run s (tx # txs) = run (storage_after s (execute s tx)) txs"

subsection \<open>Invariants of the storage\<close>

text \<open>
  \<open>counted\<close>: the counter of a user is the number of days with a record of that user.
  \<open>days_bounded\<close>: a record sits at a day that some timestamp divides down to.
  \<open>registry_consistent\<close>: \<^verbatim>\<open>count\<close> is the length of \<^verbatim>\<open>registeredUsers\<close>, which lists
  registered users without repetition. \<open>matric_bindings_consistent\<close>: the empty matric
  number is unbound, and a bound matric number is the one stored for its user.
\<close>

definition counted :: "Attendance \<Rightarrow> bool" where
  "counted s = (\<forall>u. unat (attendanceCount s u) = card {d. isPresent (attendanceRecords s u d)})"

definition days_bounded :: "Attendance \<Rightarrow> bool" where
  "days_bounded s = (\<forall>u d. isPresent (attendanceRecords s u d) \<longrightarrow> unat d \<le> (2 ^ 256 - 1) div 86400)"

definition registry_consistent :: "Attendance \<Rightarrow> bool" where
  "registry_consistent s =
     (unat (count s) = length (registeredUsers s) \<and> distinct (registeredUsers s) \<and>
      (\<forall>u. u \<in> set (registeredUsers s) \<longrightarrow> isRegistered (students s u)))"

definition matric_bindings_consistent :: "Attendance \<Rightarrow> bool" where
  "matric_bindings_consistent s =
     (matricToAddress s [] = 0 \<and>
      (\<forall>m. matricToAddress s m \<noteq> 0 \<longrightarrow>
         isRegistered (students s (matricToAddress s m)) \<and>
         matricNumber (students s (matricToAddress s m)) = m))"

section \<open>Properties\<close>

subsection \<open>Successful calls, runs and invariants\<close>

lemma checked_increment_Inr:
  "checked_increment x = Inr c \<Longrightarrow> c = x + 1 \<and> unat c = unat x + 1"
  by (auto simp: checked_increment_def unat_add_lem [THEN iffD1] split: if_splits)

lemma registerUser_Inr:
  assumes "registerUser s a t u m n = Inr (s', ev)"
  shows "a = admin s \<and> u \<noteq> 0 \<and> m \<noteq> [] \<and> n \<noteq> [] \<and> \<not> isRegistered (students s u)
    \<and> matricToAddress s m = 0 \<and> unat (count s') = unat (count s) + 1
    \<and> s' = s\<lparr>students := (students s)(u :=
                 \<lparr>matricNumber = m, name = n, isRegistered = True, registrationDate = t\<rparr>),
               matricToAddress := (matricToAddress s)(m := u),
               registeredUsers := registeredUsers s @ [u],
               count := count s + 1\<rparr>
    \<and> ev = UserRegistered u m n"
  using assms
  by (auto simp: registerUser_def dest!: checked_increment_Inr split: if_splits sum.splits)

lemma markAttendance_Inr:
  assumes "markAttendance s a t = Inr (s', ev)"
  shows "isSystemActive s \<and> isRegistered (students s a)
    \<and> \<not> isPresent (attendanceRecords s a (today t))
    \<and> unat (attendanceCount s' a) = unat (attendanceCount s a) + 1
    \<and> s' = s\<lparr>attendanceRecords := (attendanceRecords s)(a :=
                 (attendanceRecords s a)(today t :=
                    \<lparr>timestamp = t, isPresent = True,
                     recordMatricNumber = matricNumber (students s a)\<rparr>)),
               attendanceCount := (attendanceCount s)(a := attendanceCount s a + 1)\<rparr>
    \<and> ev = AttendanceMarked a (matricNumber (students s a)) (today t) t"
  using assms
  by (auto simp: markAttendance_def dest!: checked_increment_Inr split: if_splits sum.splits)

lemma toggleSystem_Inr:
  assumes "toggleSystem s a = Inr (s', ev)"
  shows "a = admin s \<and> s' = s\<lparr>isSystemActive := \<not> isSystemActive s\<rparr>
    \<and> ev = SystemStateChanged (\<not> isSystemActive s)"
  using assms by (auto simp: toggleSystem_def split: if_splits)

lemma run_invariant:
  assumes "P s" and "\<And>s tx. P s \<Longrightarrow> P (storage_after s (execute s tx))"
  shows "P (run s txs)"
  using assms(1) by (induction txs arbitrary: s) (simp_all add: assms(2))

lemma step_invariant:
  assumes "P s"
    and "\<And>a t u m n s' ev. registerUser s a t u m n = Inr (s', ev) \<Longrightarrow> P s'"
    and "\<And>a t s' ev. markAttendance s a t = Inr (s', ev) \<Longrightarrow> P s'"
    and "\<And>a s' ev. toggleSystem s a = Inr (s', ev) \<Longrightarrow> P s'"
  shows "P (storage_after s (execute s tx))"
proof -
  obtain a t c where tx: "tx = (a, t, c)" by (cases tx)
  show ?thesis
  proof (cases "execute s tx")
    case (Inl e)
    then show ?thesis using assms(1) by (simp add: storage_after_def)
  next
    case (Inr r)
    obtain s' ev where r: "r = (s', ev)" by (cases r)
    have "P s'" using Inr r tx assms(2-4) by (cases c) auto
    then show ?thesis using Inr r by (simp add: storage_after_def)
  qed
qed

lemma unat_today: "unat (today t) = unat t div 86400"
  by (simp add: today_def unat_div)

lemma today_bounded: "unat (today t) \<le> (2 ^ 256 - 1) div 86400"
proof -
  have "unat t < 2 ^ 256" using unsigned_less [of t] by simp
  then have "unat t \<le> 2 ^ 256 - 1" by simp
  then show ?thesis unfolding unat_today by (rule div_le_mono)
qed

lemma card_words_upto: "card {d :: uint256. unat d \<le> k} \<le> k + 1"
proof -
  have "inj_on unat {d :: uint256. unat d \<le> k}"
    by (rule inj_onI) (simp add: word_unat_eq_iff)
  then have "card {d :: uint256. unat d \<le> k} = card (unat ` {d :: uint256. unat d \<le> k})"
    by (simp add: card_image)
  also have "\<dots> \<le> card {0..k}" by (rule card_mono) auto
  finally show ?thesis by simp
qed

lemma counted_constructor: "counted (constructor a)"
  by (simp add: counted_def constructor_def zeroAttendanceRecord_def)

lemma days_bounded_constructor: "days_bounded (constructor a)"
  by (simp add: days_bounded_def constructor_def zeroAttendanceRecord_def)

lemma counted_step: "counted s \<Longrightarrow> counted (storage_after s (execute s tx))"
proof (rule step_invariant [where P = counted])
  fix a t s' ev
  assume c: "counted s" and m: "markAttendance s a t = Inr (s', ev)"
  note r = markAttendance_Inr [OF m]
  have new: "today t \<notin> {d. isPresent (attendanceRecords s a d)}" using r by simp
  have s': "attendanceRecords s' = (attendanceRecords s)(a :=
                 (attendanceRecords s a)(today t :=
                    \<lparr>timestamp = t, isPresent = True,
                     recordMatricNumber = matricNumber (students s a)\<rparr>))"
    and c': "attendanceCount s' = (attendanceCount s)(a := attendanceCount s a + 1)"
    using r by simp_all
  show "counted s'"
    unfolding counted_def
  proof
    fix u
    show "unat (attendanceCount s' u) = card {d. isPresent (attendanceRecords s' u d)}"
    proof (cases "u = a")
      case True
      have "{d. isPresent (attendanceRecords s' a d)} = insert (today t) {d. isPresent (attendanceRecords s a d)}"
        unfolding s' by auto
      then have "card {d. isPresent (attendanceRecords s' a d)} = Suc (card {d. isPresent (attendanceRecords s a d)})"
        using new by simp
      moreover have "unat (attendanceCount s' a) = unat (attendanceCount s a) + 1"
        using r by blast
      ultimately show ?thesis using True c by (simp add: counted_def)
    next
      case False
      then show ?thesis using c by (simp add: s' c' counted_def)
    qed
  qed
next
  fix a t u m n s' ev
  assume "counted s" "registerUser s a t u m n = Inr (s', ev)"
  then show "counted s'" by (auto simp: counted_def dest!: registerUser_Inr)
next
  fix a s' ev
  assume "counted s" "toggleSystem s a = Inr (s', ev)"
  then show "counted s'" by (auto simp: counted_def dest!: toggleSystem_Inr)
qed

lemma days_bounded_step: "days_bounded s \<Longrightarrow> days_bounded (storage_after s (execute s tx))"
proof (rule step_invariant [where P = days_bounded])
  fix a t s' ev
  assume c: "days_bounded s" and m: "markAttendance s a t = Inr (s', ev)"
  have s': "attendanceRecords s' = (attendanceRecords s)(a :=
                 (attendanceRecords s a)(today t :=
                    \<lparr>timestamp = t, isPresent = True,
                     recordMatricNumber = matricNumber (students s a)\<rparr>))"
    using markAttendance_Inr [OF m] by simp
  show "days_bounded s'"
    unfolding days_bounded_def s' using c today_bounded [of t]
    by (auto simp: days_bounded_def)
next
  fix a t u m n s' ev
  assume "days_bounded s" "registerUser s a t u m n = Inr (s', ev)"
  then show "days_bounded s'" by (auto simp: days_bounded_def dest!: registerUser_Inr)
next
  fix a s' ev
  assume "days_bounded s" "toggleSystem s a = Inr (s', ev)"
  then show "days_bounded s'" by (auto simp: days_bounded_def dest!: toggleSystem_Inr)
qed

lemma counted_run: "counted (run (constructor a) txs)"
  by (rule run_invariant [where P = counted]) (simp_all add: counted_constructor counted_step)

lemma days_bounded_run: "days_bounded (run (constructor a) txs)"
  by (rule run_invariant [where P = days_bounded]) (simp_all add: days_bounded_constructor days_bounded_step)

lemma attendanceCount_no_overflow:
  assumes "counted s" "days_bounded s"
  shows "unat (attendanceCount s u) + 1 < 2 ^ 256"
proof -
  let ?K = "(2 ^ 256 - 1) div 86400 :: nat"
  have "{d. isPresent (attendanceRecords s u d)} \<subseteq> {d. unat d \<le> ?K}"
    using assms(2) by (auto simp: days_bounded_def)
  then have "card {d. isPresent (attendanceRecords s u d)} \<le> card {d :: uint256. unat d \<le> ?K}"
    by (intro card_mono) simp_all
  also have "\<dots> \<le> ?K + 1" by (rule card_words_upto)
  finally have "unat (attendanceCount s u) \<le> ?K + 1" using assms(1) by (simp add: counted_def)
  moreover have "?K + 1 + 1 < 2 ^ 256" by simp
  ultimately show ?thesis by linarith
qed

lemma unat_div_eq_iff_today:
  "unat a div 86400 = unat b div 86400 \<longleftrightarrow> today a = today b"
  by (simp add: word_unat_eq_iff [of "today a"] unat_today)

lemma registry_consistent_constructor: "registry_consistent (constructor a)"
  by (simp add: registry_consistent_def constructor_def)

lemma matric_bindings_consistent_constructor: "matric_bindings_consistent (constructor a)"
  by (simp add: matric_bindings_consistent_def constructor_def)

lemma registry_consistent_step:
  "registry_consistent s \<Longrightarrow> registry_consistent (storage_after s (execute s tx))"
proof (rule step_invariant [where P = registry_consistent])
  fix a t u m n s' ev
  assume c: "registry_consistent s" and m: "registerUser s a t u m n = Inr (s', ev)"
  note r = registerUser_Inr [OF m]
  have fresh: "u \<notin> set (registeredUsers s)" using c r by (auto simp: registry_consistent_def)
  have cnt: "unat (count s') = unat (count s) + 1" using r by blast
  have s': "registeredUsers s' = registeredUsers s @ [u]"
    "students s' = (students s)(u := \<lparr>matricNumber = m, name = n, isRegistered = True, registrationDate = t\<rparr>)"
    using r by simp_all
  show "registry_consistent s'"
    using c fresh cnt by (simp add: registry_consistent_def s')
next
  fix a t s' ev
  assume "registry_consistent s" "markAttendance s a t = Inr (s', ev)"
  then show "registry_consistent s'" by (auto simp: registry_consistent_def dest!: markAttendance_Inr)
next
  fix a s' ev
  assume "registry_consistent s" "toggleSystem s a = Inr (s', ev)"
  then show "registry_consistent s'" by (auto simp: registry_consistent_def dest!: toggleSystem_Inr)
qed

lemma matric_bindings_consistent_step:
  "matric_bindings_consistent s \<Longrightarrow> matric_bindings_consistent (storage_after s (execute s tx))"
proof (rule step_invariant [where P = matric_bindings_consistent])
  fix a t u m n s' ev
  assume c: "matric_bindings_consistent s" and m: "registerUser s a t u m n = Inr (s', ev)"
  note r = registerUser_Inr [OF m]
  have pre: "m \<noteq> []" "u \<noteq> 0" "\<not> isRegistered (students s u)" using r by simp_all
  have s': "matricToAddress s' = (matricToAddress s)(m := u)"
    "students s' = (students s)(u := \<lparr>matricNumber = m, name = n, isRegistered = True, registrationDate = t\<rparr>)"
    using r by simp_all
  show "matric_bindings_consistent s'"
    using c pre by (auto simp: matric_bindings_consistent_def s')
next
  fix a t s' ev
  assume "matric_bindings_consistent s" "markAttendance s a t = Inr (s', ev)"
  then show "matric_bindings_consistent s'"
    by (auto simp: matric_bindings_consistent_def dest!: markAttendance_Inr)
next
  fix a s' ev
  assume "matric_bindings_consistent s" "toggleSystem s a = Inr (s', ev)"
  then show "matric_bindings_consistent s'"
    by (auto simp: matric_bindings_consistent_def dest!: toggleSystem_Inr)
qed

lemma registry_consistent_run: "registry_consistent (run (constructor a) txs)"
  by (rule run_invariant [where P = registry_consistent])
     (simp_all add: registry_consistent_constructor registry_consistent_step)

lemma matric_bindings_consistent_run: "matric_bindings_consistent (run (constructor a) txs)"
  by (rule run_invariant [where P = matric_bindings_consistent])
     (simp_all add: matric_bindings_consistent_constructor matric_bindings_consistent_step)

lemma count_no_overflow:
  assumes "registry_consistent s"
  shows "unat (count s) + 1 < 2 ^ 256"
proof -
  have "length (registeredUsers s) = card (set (registeredUsers s))"
    using assms by (simp add: registry_consistent_def distinct_card)
  also have "\<dots> \<le> card (UNIV :: address set)" by (rule card_mono) simp_all
  also have "\<dots> = 2 ^ 160" by (simp add: card_word)
  finally have "unat (count s) \<le> 2 ^ 160" using assms by (simp add: registry_consistent_def)
  moreover have "(2 :: nat) ^ 160 + 1 < 2 ^ 256" by simp
  ultimately show ?thesis by linarith
qed

lemma run_toggles:
  "run s (map (\<lambda>t. (admin s, t, ToggleSystem)) ts)
     = s\<lparr>isSystemActive := (if even (length ts) then isSystemActive s else \<not> isSystemActive s)\<rparr>"
proof (induction ts arbitrary: s)
  case Nil
  show ?case by simp
next
  case (Cons t ts)
  let ?s1 = "s\<lparr>isSystemActive := \<not> isSystemActive s\<rparr>"
  have "run s (map (\<lambda>t. (admin s, t, ToggleSystem)) (t # ts))
      = run ?s1 (map (\<lambda>t. (admin ?s1, t, ToggleSystem)) ts)"
    by (simp add: toggleSystem_def storage_after_def)
  also have "\<dots> = ?s1\<lparr>isSystemActive :=
      (if even (length ts) then isSystemActive ?s1 else \<not> isSystemActive ?s1)\<rparr>"
    by (rule Cons.IH)
  finally show ?case by simp
qed

lemmas ledger_defs = constructor_def registerUser_def markAttendance_def toggleSystem_def
  storage_after_def checked_increment_def zeroStudent_def zeroAttendanceRecord_def today_def

section \<open>The claims\<close>

subsection \<open>C1: lookup by matric number\<close>

text \<open>
  C1, as stated: for a matric number bound to an identity, \<^verbatim>\<open>getStudentByMatric\<close> returns
  the tuple of \<^verbatim>\<open>getStudentByAddress\<close> on the resolved identity, (matricNumber, name,
  isRegistered, registrationDate), plus the resolved identity. The code does not: after the
  admin 1 has registered the address 2 under ''CSC001'', the matric number resolves to 2,
  and the tuple returned for it is not the one of \<^verbatim>\<open>getStudentByAddress\<close> extended by the
  address. It has four values, the address first and no matric number.
\<close>

theorem getStudentByMatric_not_getStudentByAddress_plus_identity:
  "getStudentAddressByMatric
     (run (constructor 1) [(1, 1700000000, RegisterUser 2 ''CSC001'' ''Alice'')]) ''CSC001'' = Inr 2
   \<and> getStudentByMatric
     (run (constructor 1) [(1, 1700000000, RegisterUser 2 ''CSC001'' ''Alice'')]) ''CSC001''
     \<noteq> Inr (getStudentByAddress
         (run (constructor 1) [(1, 1700000000, RegisterUser 2 ''CSC001'' ''Alice'')]) 2
         @ [AbiAddress 2])"
  by (simp add: getStudentAddressByMatric_def getStudentByMatric_def getStudentByAddress_def
      ledger_defs)

text \<open>
  C1, amended: for a matric number bound to an identity \<open>a\<close> (\<^verbatim>\<open>matricToAddress\<close> is not
  \<^verbatim>\<open>address(0)\<close>), \<^verbatim>\<open>getStudentByMatric\<close> returns (a, name, isRegistered,
  registrationDate): the resolved identity, then the last three values of the tuple
  \<^verbatim>\<open>getStudentByAddress\<close> returns on \<open>a\<close>. The first value of that tuple, the matric
  number, is not returned; in a state the contract can reach it is the matric number asked
  for. For an unbound matric number the call reverts with ``Student not found''.
\<close>

theorem getStudentByMatric_returns:
  "(matricToAddress s matric = a \<and> a \<noteq> 0 \<longrightarrow>
      (\<exists>mn nm reg date.
         getStudentByAddress s a = [AbiString mn, AbiString nm, AbiBool reg, AbiUint256 date] \<and>
         getStudentByMatric s matric = Inr [AbiAddress a, AbiString nm, AbiBool reg, AbiUint256 date] \<and>
         (s = run (constructor deployer) txs \<longrightarrow> mn = matric)))
   \<and> (matricToAddress s matric = 0 \<longrightarrow>
         getStudentByMatric s matric = Inl (Revert ''Student not found''))"
proof (intro conjI impI)
  assume b: "matricToAddress s matric = a \<and> a \<noteq> 0"
  have "s = run (constructor deployer) txs \<longrightarrow> matricNumber (students s a) = matric"
    using b matric_bindings_consistent_run [of deployer txs]
    by (auto simp: matric_bindings_consistent_def)
  then show "\<exists>mn nm reg date.
         getStudentByAddress s a = [AbiString mn, AbiString nm, AbiBool reg, AbiUint256 date] \<and>
         getStudentByMatric s matric = Inr [AbiAddress a, AbiString nm, AbiBool reg, AbiUint256 date] \<and>
         (s = run (constructor deployer) txs \<longrightarrow> mn = matric)"
    using b by (simp add: getStudentByAddress_def getStudentByMatric_def Let_def)
next
  assume "matricToAddress s matric = 0"
  then show "getStudentByMatric s matric = Inl (Revert ''Student not found'')"
    by (simp add: getStudentByMatric_def)
qed

text \<open>
  The amended C1 at the state above: ''CSC001'' is bound to 2 and ''CSC002'' is unbound.
\<close>

theorem getStudentByMatric_returns_witness:
  "matricToAddress (run (constructor 1) [(1, 1700000000, RegisterUser 2 ''CSC001'' ''Alice'')]) ''CSC001'' = 2
   \<and> getStudentByMatric (run (constructor 1) [(1, 1700000000, RegisterUser 2 ''CSC001'' ''Alice'')]) ''CSC001''
       = Inr [AbiAddress 2, AbiString ''Alice'', AbiBool True, AbiUint256 1700000000]
   \<and> getStudentByAddress (run (constructor 1) [(1, 1700000000, RegisterUser 2 ''CSC001'' ''Alice'')]) 2
       = [AbiString ''CSC001'', AbiString ''Alice'', AbiBool True, AbiUint256 1700000000]
   \<and> matricToAddress (run (constructor 1) [(1, 1700000000, RegisterUser 2 ''CSC001'' ''Alice'')]) ''CSC002'' = 0
   \<and> getStudentByMatric (run (constructor 1) [(1, 1700000000, RegisterUser 2 ''CSC001'' ''Alice'')]) ''CSC002''
       = Inl (Revert ''Student not found'')"
  using getStudentByMatric_returns
    [of "run (constructor 1) [(1, 1700000000, RegisterUser 2 ''CSC001'' ''Alice'')]" "''CSC001''" 2 1
        "[(1, 1700000000, RegisterUser 2 ''CSC001'' ''Alice'')]"]
    getStudentByMatric_returns
    [of "run (constructor 1) [(1, 1700000000, RegisterUser 2 ''CSC001'' ''Alice'')]" "''CSC002''" 0 1
        "[(1, 1700000000, RegisterUser 2 ''CSC001'' ''Alice'')]"]
  by (simp add: getStudentByAddress_def getStudentByMatric_def Let_def ledger_defs)

subsection \<open>C2: the attendance counter counts the records\<close>

text \<open>
  C2: in every state reached from the constructor by any sequence of transactions
  (reverted ones included), the attendance counter of every user is the number of days at
  which an attendance record of that user is present.
\<close>

theorem attendanceCount_counts_records:
  "unat (getAttendanceCount (run (constructor deployer) txs) user)
     = card {date. verifyAttendance (run (constructor deployer) txs) user date}"
  using counted_run [of deployer txs]
  by (simp add: counted_def getAttendanceCount_def verifyAttendance_def)

text \<open>
  C2 at a run where the student 2 marks twice on one day (the second call reverts) and
  once on the next day: two records.
\<close>

theorem attendanceCount_counts_records_witness:
  "card {date. verifyAttendance
      (run (constructor 1)
        [(1, 1700000000, RegisterUser 2 ''CSC001'' ''Alice''),
         (2, 1700000000, MarkAttendance), (2, 1700003600, MarkAttendance),
         (2, 1700086400, MarkAttendance)]) 2 date} = 2"
  using attendanceCount_counts_records
    [of 1 "[(1, 1700000000, RegisterUser 2 ''CSC001'' ''Alice''),
         (2, 1700000000, MarkAttendance), (2, 1700003600, MarkAttendance),
         (2, 1700086400, MarkAttendance)]" 2]
  by (simp add: getAttendanceCount_def ledger_defs)

subsection \<open>C3: one mark per day\<close>

text \<open>
  C3: for a registered user that has no attendance record yet, in a reachable state with
  the system active, \<^verbatim>\<open>markAttendance\<close> at time \<open>now\<close> succeeds and the count is 1; in the
  state it yields, a call at any \<open>now'\<close> of the same day (\<open>now' div 86400 = now div 86400\<close>)
  reverts with ``Attendance already marked for today'' and the count stays 1, and a
  call at any \<open>now'\<close> of another day succeeds.
\<close>

theorem markAttendance_once_per_day:
  assumes "s = run (constructor deployer) txs"
    and "isSystemActive s"
    and "isRegistered (students s user)"
    and "\<forall>date. \<not> isPresent (attendanceRecords s user date)"
  shows "\<exists>s1 ev1. markAttendance s user now = Inr (s1, ev1)
    \<and> getAttendanceCount s1 user = 1
    \<and> (\<forall>now'. unat now' div 86400 = unat now div 86400 \<longrightarrow>
          markAttendance s1 user now' = Inl (Revert ''Attendance already marked for today'')
          \<and> getAttendanceCount (storage_after s1 (markAttendance s1 user now')) user = 1)
    \<and> (\<forall>now'. unat now' div 86400 \<noteq> unat now div 86400 \<longrightarrow>
          (\<exists>s2 ev2. markAttendance s1 user now' = Inr (s2, ev2)))"
proof -
  have "unat (attendanceCount s user) = card {d. isPresent (attendanceRecords s user d)}"
    using counted_run [of deployer txs] assms(1) by (simp add: counted_def)
  then have zero: "attendanceCount s user = 0"
    using assms(4) by (simp add: unat_eq_0)
  define s1 where "s1 = s\<lparr>attendanceRecords := (attendanceRecords s)(user :=
                 (attendanceRecords s user)(today now :=
                    \<lparr>timestamp = now, isPresent = True,
                     recordMatricNumber = matricNumber (students s user)\<rparr>)),
               attendanceCount := (attendanceCount s)(user := 1)\<rparr>"
  have first: "markAttendance s user now
      = Inr (s1, AttendanceMarked user (matricNumber (students s user)) (today now) now)"
    using assms(2-4) zero by (simp add: markAttendance_def checked_increment_def s1_def)
  have one: "getAttendanceCount s1 user = 1"
    by (simp add: s1_def getAttendanceCount_def)
  have same: "markAttendance s1 user now' = Inl (Revert ''Attendance already marked for today'')"
    if "unat now' div 86400 = unat now div 86400" for now'
  proof -
    have "today now' = today now" using that by (simp add: unat_div_eq_iff_today)
    then show ?thesis using assms(2,3) by (simp add: markAttendance_def s1_def)
  qed
  have other: "\<exists>s2 ev2. markAttendance s1 user now' = Inr (s2, ev2)"
    if "unat now' div 86400 \<noteq> unat now div 86400" for now'
  proof -
    have "today now' \<noteq> today now" using that by (simp add: unat_div_eq_iff_today)
    then show ?thesis
      using assms(2-4) by (simp add: markAttendance_def checked_increment_def s1_def)
  qed
  show ?thesis
    using first one same other by (simp add: storage_after_def)
qed

text \<open>
  C3 at the student 2, registered by the admin 1: the first mark and a mark on the next
  day succeed, a mark one hour after the first reverts, and the count after it is 1.
\<close>

theorem markAttendance_once_per_day_witness:
  "getAttendanceCount
     (run (constructor 1)
        [(1, 1700000000, RegisterUser 2 ''CSC001'' ''Alice''),
         (2, 1700000000, MarkAttendance), (2, 1700003600, MarkAttendance)]) 2 = 1
   \<and> markAttendance
     (run (constructor 1)
        [(1, 1700000000, RegisterUser 2 ''CSC001'' ''Alice''),
         (2, 1700000000, MarkAttendance)]) 2 1700003600
       = Inl (Revert ''Attendance already marked for today'')
   \<and> (\<exists>s1 ev1. markAttendance
         (run (constructor 1) [(1, 1700000000, RegisterUser 2 ''CSC001'' ''Alice'')]) 2 1700000000
           = Inr (s1, ev1)
         \<and> (\<exists>s2 ev2. markAttendance s1 2 1700086400 = Inr (s2, ev2)))"
proof -
  let ?s = "run (constructor 1) [(1, 1700000000, RegisterUser 2 ''CSC001'' ''Alice'')]"
  have h: "isSystemActive ?s" "isRegistered (students ?s 2)"
    "\<forall>date. \<not> isPresent (attendanceRecords ?s 2 date)"
    by (simp_all add: ledger_defs)
  have d: "unat (1700086400 :: uint256) div 86400 \<noteq> unat (1700000000 :: uint256) div 86400"
    by simp
  obtain s1 ev1 where
    m: "markAttendance ?s 2 1700000000 = Inr (s1, ev1)" and
    o: "\<forall>now'. unat now' div 86400 \<noteq> unat (1700000000 :: uint256) div 86400 \<longrightarrow>
          (\<exists>s2 ev2. markAttendance s1 2 now' = Inr (s2, ev2))"
    using markAttendance_once_per_day [OF refl h, of 1700000000] by blast
  have "\<exists>s2 ev2. markAttendance s1 2 1700086400 = Inr (s2, ev2)"
    using o d by blast
  then have "\<exists>s1 ev1. markAttendance ?s 2 1700000000 = Inr (s1, ev1)
         \<and> (\<exists>s2 ev2. markAttendance s1 2 1700086400 = Inr (s2, ev2))"
    using m by blast
  moreover have "getAttendanceCount
     (run (constructor 1)
        [(1, 1700000000, RegisterUser 2 ''CSC001'' ''Alice''),
         (2, 1700000000, MarkAttendance), (2, 1700003600, MarkAttendance)]) 2 = 1"
    by (simp add: getAttendanceCount_def ledger_defs)
  moreover have "markAttendance
     (run (constructor 1)
        [(1, 1700000000, RegisterUser 2 ''CSC001'' ''Alice''),
         (2, 1700000000, MarkAttendance)]) 2 1700003600
       = Inl (Revert ''Attendance already marked for today'')"
    by (simp add: ledger_defs)
  ultimately show ?thesis by blast
qed
subsection \<open>C4: the inactive system\<close>

text \<open>
  C4: while \<^verbatim>\<open>isSystemActive\<close> is false, \<^verbatim>\<open>markAttendance\<close> reverts with ``Attendance
  system is not active'' for every sender, registered or not (this check comes before
  the registration check). In a reachable inactive state, \<^verbatim>\<open>toggleSystem\<close> called by the
  admin succeeds and makes the system active, and then \<^verbatim>\<open>markAttendance\<close> of a registered
  user succeeds at any time whose day that user has not marked.
\<close>

theorem markAttendance_inactive:
  "(\<not> isSystemActive s \<longrightarrow>
      markAttendance s msg_sender now = Inl (Revert ''Attendance system is not active''))
   \<and> (s = run (constructor deployer) txs \<and> \<not> isSystemActive s
        \<and> isRegistered (students s user)
        \<and> \<not> isPresent (attendanceRecords s user (today now)) \<longrightarrow>
        (\<exists>s' ev. toggleSystem s (admin s) = Inr (s', ev) \<and> isSystemActive s'
           \<and> (\<exists>s'' ev'. markAttendance s' user now = Inr (s'', ev'))))"
proof (intro conjI impI)
  assume "\<not> isSystemActive s"
  then show "markAttendance s msg_sender now = Inl (Revert ''Attendance system is not active'')"
    by (simp add: markAttendance_def)
next
  assume h: "s = run (constructor deployer) txs \<and> \<not> isSystemActive s
        \<and> isRegistered (students s user)
        \<and> \<not> isPresent (attendanceRecords s user (today now))"
  then have a: "\<not> isSystemActive s" and b: "isRegistered (students s user)"
    and c: "\<not> isPresent (attendanceRecords s user (today now))"
    and reach: "s = run (constructor deployer) txs"
    by blast+
  have "counted s" "days_bounded s"
    unfolding reach by (rule counted_run, rule days_bounded_run)
  then have "unat (attendanceCount s user) + 1 < 2 ^ 256"
    by (rule attendanceCount_no_overflow)
  then have "checked_increment (attendanceCount s user) = Inr (attendanceCount s user + 1)"
    by (simp add: checked_increment_def)
  then show "\<exists>s' ev. toggleSystem s (admin s) = Inr (s', ev) \<and> isSystemActive s'
           \<and> (\<exists>s'' ev'. markAttendance s' user now = Inr (s'', ev'))"
    using a b c by (simp add: toggleSystem_def markAttendance_def)
qed

text \<open>
  C4 after the admin 1 has registered 2 and switched the system off: the registered 2
  and the unregistered 3 are both refused; after the admin's toggle, 2 can mark.
\<close>

theorem markAttendance_inactive_witness:
  "\<not> isSystemActive (run (constructor 1)
        [(1, 1700000000, RegisterUser 2 ''CSC001'' ''Alice''), (1, 1700000001, ToggleSystem)])
   \<and> markAttendance (run (constructor 1)
        [(1, 1700000000, RegisterUser 2 ''CSC001'' ''Alice''), (1, 1700000001, ToggleSystem)])
        2 1700000002 = Inl (Revert ''Attendance system is not active'')
   \<and> markAttendance (run (constructor 1)
        [(1, 1700000000, RegisterUser 2 ''CSC001'' ''Alice''), (1, 1700000001, ToggleSystem)])
        3 1700000002 = Inl (Revert ''Attendance system is not active'')
   \<and> (\<exists>s' ev. toggleSystem (run (constructor 1)
        [(1, 1700000000, RegisterUser 2 ''CSC001'' ''Alice''), (1, 1700000001, ToggleSystem)]) 1
          = Inr (s', ev) \<and> isSystemActive s'
        \<and> (\<exists>s'' ev'. markAttendance s' 2 1700000002 = Inr (s'', ev')))"
proof -
  let ?s = "run (constructor 1)
        [(1, 1700000000, RegisterUser 2 ''CSC001'' ''Alice''), (1, 1700000001, ToggleSystem)]"
  have h: "\<not> isSystemActive ?s" "isRegistered (students ?s 2)"
    "\<not> isPresent (attendanceRecords ?s 2 (today 1700000002))" "admin ?s = 1"
    by (simp_all add: ledger_defs)
  show ?thesis
    using h markAttendance_inactive [of ?s 2 1700000002 1
        "[(1, 1700000000, RegisterUser 2 ''CSC001'' ''Alice''), (1, 1700000001, ToggleSystem)]" 2]
      markAttendance_inactive [of ?s 3 1700000002 1
        "[(1, 1700000000, RegisterUser 2 ''CSC001'' ''Alice''), (1, 1700000001, ToggleSystem)]" 2]
    by fastforce
qed

subsection \<open>C5: only the admin registers and toggles\<close>

text \<open>
  C5: for every sender other than the admin, \<^verbatim>\<open>registerUser\<close> and \<^verbatim>\<open>toggleSystem\<close> revert
  with ``Only admin can call this function'', and the storage after the reverted call
  is the storage before it, in all its components.
\<close>

theorem non_admin_rejected:
  assumes "msg_sender \<noteq> admin s"
  shows "registerUser s msg_sender now user matric nm
           = Inl (Revert ''Only admin can call this function'')
    \<and> toggleSystem s msg_sender = Inl (Revert ''Only admin can call this function'')
    \<and> storage_after s (registerUser s msg_sender now user matric nm) = s
    \<and> storage_after s (toggleSystem s msg_sender) = s
    \<and> run s [(msg_sender, now, RegisterUser user matric nm), (msg_sender, now, ToggleSystem)] = s"
  using assms by (simp add: registerUser_def toggleSystem_def storage_after_def)

text \<open>C5 at the sender 2 on the contract deployed by 1.\<close>

theorem non_admin_rejected_witness:
  "(2 :: address) \<noteq> admin (constructor 1)
   \<and> registerUser (constructor 1) 2 1700000000 2 ''CSC001'' ''Alice''
        = Inl (Revert ''Only admin can call this function'')
   \<and> toggleSystem (constructor 1) 2 = Inl (Revert ''Only admin can call this function'')
   \<and> run (constructor 1) [(2, 1700000000, RegisterUser 2 ''CSC001'' ''Alice''),
        (2, 1700000000, ToggleSystem)] = constructor 1"
proof -
  have h: "(2 :: address) \<noteq> admin (constructor 1)" by (simp add: constructor_def)
  show ?thesis
    using h non_admin_rejected [OF h, of 1700000000 2 "''CSC001''" "''Alice''"]
    by (simp add: ledger_defs)
qed

subsection \<open>C6: the registration counter is the length of the list\<close>

text \<open>
  C6: in every state reached from the constructor, \<^verbatim>\<open>count\<close> is the length of the list
  \<^verbatim>\<open>getRegisteredUsers\<close> returns. A successful \<^verbatim>\<open>registerUser\<close> appends exactly the
  registered user to the list and increments \<^verbatim>\<open>count\<close> by one; a successful
  \<^verbatim>\<open>markAttendance\<close> or \<^verbatim>\<open>toggleSystem\<close> changes neither, and a reverted transaction
  changes nothing.
\<close>

theorem count_is_length_registeredUsers:
  "unat (count (run (constructor deployer) txs))
      = length (getRegisteredUsers (run (constructor deployer) txs))
   \<and> (registerUser s msg_sender now user matric nm = Inr (s', ev) \<longrightarrow>
        getRegisteredUsers s' = getRegisteredUsers s @ [user]
        \<and> unat (count s') = unat (count s) + 1)
   \<and> (markAttendance s msg_sender now = Inr (s', ev) \<longrightarrow>
        getRegisteredUsers s' = getRegisteredUsers s \<and> count s' = count s)
   \<and> (toggleSystem s msg_sender = Inr (s', ev) \<longrightarrow>
        getRegisteredUsers s' = getRegisteredUsers s \<and> count s' = count s)
   \<and> (execute s tx = Inl e \<longrightarrow> storage_after s (execute s tx) = s)"
proof (intro conjI impI)
  show "unat (count (run (constructor deployer) txs))
      = length (getRegisteredUsers (run (constructor deployer) txs))"
    using registry_consistent_run [of deployer txs]
    by (simp add: registry_consistent_def getRegisteredUsers_def)
next
  assume r: "registerUser s msg_sender now user matric nm = Inr (s', ev)"
  show "getRegisteredUsers s' = getRegisteredUsers s @ [user]"
    using registerUser_Inr [OF r] by (simp add: getRegisteredUsers_def)
  show "unat (count s') = unat (count s) + 1"
    using registerUser_Inr [OF r] by blast
next
  assume m: "markAttendance s msg_sender now = Inr (s', ev)"
  show "getRegisteredUsers s' = getRegisteredUsers s" "count s' = count s"
    using markAttendance_Inr [OF m] by (simp_all add: getRegisteredUsers_def)
next
  assume t: "toggleSystem s msg_sender = Inr (s', ev)"
  show "getRegisteredUsers s' = getRegisteredUsers s" "count s' = count s"
    using toggleSystem_Inr [OF t] by (simp_all add: getRegisteredUsers_def)
next
  assume "execute s tx = Inl e"
  then show "storage_after s (execute s tx) = s" by (simp add: storage_after_def)
qed

text \<open>
  C6 at concrete calls: two registrations with a mark between them give the list [2, 3]
  and the counter 2; each kind of call is taken once.
\<close>

theorem count_is_length_registeredUsers_witness:
  "getRegisteredUsers (run (constructor 1)
      [(1, 1700000000, RegisterUser 2 ''CSC001'' ''Alice''),
       (2, 1700000000, MarkAttendance),
       (1, 1700000001, RegisterUser 3 ''CSC002'' ''Bob'')]) = [2, 3]
   \<and> count (run (constructor 1)
      [(1, 1700000000, RegisterUser 2 ''CSC001'' ''Alice''),
       (2, 1700000000, MarkAttendance),
       (1, 1700000001, RegisterUser 3 ''CSC002'' ''Bob'')]) = 2
   \<and> registerUser (constructor 1) 1 1700000000 2 ''CSC001'' ''Alice''
       = Inr (run (constructor 1) [(1, 1700000000, RegisterUser 2 ''CSC001'' ''Alice'')],
              UserRegistered 2 ''CSC001'' ''Alice'')
   \<and> getRegisteredUsers (run (constructor 1) [(1, 1700000000, RegisterUser 2 ''CSC001'' ''Alice'')])
       = getRegisteredUsers (constructor 1) @ [2]
   \<and> markAttendance (run (constructor 1) [(1, 1700000000, RegisterUser 2 ''CSC001'' ''Alice'')])
         2 1700000000
       = Inr (run (constructor 1) [(1, 1700000000, RegisterUser 2 ''CSC001'' ''Alice''),
                (2, 1700000000, MarkAttendance)],
              AttendanceMarked 2 ''CSC001'' 19675 1700000000)
   \<and> getRegisteredUsers (run (constructor 1) [(1, 1700000000, RegisterUser 2 ''CSC001'' ''Alice''),
                (2, 1700000000, MarkAttendance)])
       = getRegisteredUsers (run (constructor 1) [(1, 1700000000, RegisterUser 2 ''CSC001'' ''Alice'')])
   \<and> toggleSystem (constructor 1) 1
       = Inr (run (constructor 1) [(1, 1700000000, ToggleSystem)], SystemStateChanged False)
   \<and> count (run (constructor 1) [(1, 1700000000, ToggleSystem)]) = count (constructor 1)
   \<and> execute (constructor 1) (2, 1700000000, MarkAttendance) = Inl (Revert ''Student not registered'')
   \<and> storage_after (constructor 1) (execute (constructor 1) (2, 1700000000, MarkAttendance))
       = constructor 1"
proof -
  let ?s0 = "constructor 1"
  let ?s1 = "run (constructor 1) [(1, 1700000000, RegisterUser 2 ''CSC001'' ''Alice'')]"
  let ?s2 = "run (constructor 1) [(1, 1700000000, RegisterUser 2 ''CSC001'' ''Alice''),
                (2, 1700000000, MarkAttendance)]"
  let ?s3 = "run (constructor 1) [(1, 1700000000, ToggleSystem)]"
  have r: "registerUser ?s0 1 1700000000 2 ''CSC001'' ''Alice''
       = Inr (?s1, UserRegistered 2 ''CSC001'' ''Alice'')"
    by (simp add: ledger_defs)
  have m: "markAttendance ?s1 2 1700000000
       = Inr (?s2, AttendanceMarked 2 ''CSC001'' 19675 1700000000)"
    by (simp add: ledger_defs)
  have t: "toggleSystem ?s0 1 = Inr (?s3, SystemStateChanged False)"
    by (simp add: ledger_defs)
  have e: "execute ?s0 (2, 1700000000, MarkAttendance) = Inl (Revert ''Student not registered'')"
    by (simp add: ledger_defs)
  have v: "getRegisteredUsers (run (constructor 1)
      [(1, 1700000000, RegisterUser 2 ''CSC001'' ''Alice''),
       (2, 1700000000, MarkAttendance),
       (1, 1700000001, RegisterUser 3 ''CSC002'' ''Bob'')]) = [2, 3]"
   "count (run (constructor 1)
      [(1, 1700000000, RegisterUser 2 ''CSC001'' ''Alice''),
       (2, 1700000000, MarkAttendance),
       (1, 1700000001, RegisterUser 3 ''CSC002'' ''Bob'')]) = 2"
    by (simp_all add: getRegisteredUsers_def ledger_defs)
  have c1: "getRegisteredUsers ?s1 = getRegisteredUsers ?s0 @ [2]"
    using count_is_length_registeredUsers
      [of 1 "[]" ?s0 1 1700000000 2 "''CSC001''" "''Alice''" ?s1 "UserRegistered 2 ''CSC001'' ''Alice''"]
      r by blast
  have c2: "getRegisteredUsers ?s2 = getRegisteredUsers ?s1"
    using count_is_length_registeredUsers
      [of 1 "[]" ?s1 2 1700000000 2 "''CSC001''" "''Alice''" ?s2
          "AttendanceMarked 2 ''CSC001'' 19675 1700000000"]
      m by blast
  have c3: "count ?s3 = count ?s0"
    using count_is_length_registeredUsers
      [of 1 "[]" ?s0 1 1700000000 2 "''CSC001''" "''Alice''" ?s3 "SystemStateChanged False"]
      t by blast
  have c4: "storage_after ?s0 (execute ?s0 (2, 1700000000, MarkAttendance)) = ?s0"
    using count_is_length_registeredUsers
      [of 1 "[]" ?s0 1 1700000000 2 "''CSC001''" "''Alice''" ?s3 "SystemStateChanged False"
          "(2, 1700000000, MarkAttendance)" "Revert ''Student not registered''"]
      e by blast
  show ?thesis using r m t e v c1 c2 c3 c4 by blast
qed

subsection \<open>C7: the day index\<close>

text \<open>
  C7: the day of a timestamp is the timestamp divided by 86400, rounded down. A successful
  \<^verbatim>\<open>markAttendance\<close> at time \<open>now\<close> found no record of the sender at that day, stores
  the record (now, true, matric number of the sender) at exactly that day, changes no
  other record, and emits that day; a call that finds a record at that day reverts with
  ``Attendance already marked for today''.
\<close>

theorem markAttendance_day_index:
  "unat (today now) = unat now div 86400
   \<and> (markAttendance s msg_sender now = Inr (s', ev) \<longrightarrow>
        \<not> verifyAttendance s msg_sender (today now)
        \<and> attendanceRecords s' msg_sender (today now)
            = \<lparr>timestamp = now, isPresent = True,
               recordMatricNumber = matricNumber (students s msg_sender)\<rparr>
        \<and> verifyAttendance s' msg_sender (today now)
        \<and> getAttendanceRecord s' msg_sender (today now) = (now, True)
        \<and> (\<forall>user date. (user, date) \<noteq> (msg_sender, today now) \<longrightarrow>
              attendanceRecords s' user date = attendanceRecords s user date)
        \<and> ev = AttendanceMarked msg_sender (matricNumber (students s msg_sender)) (today now) now)
   \<and> (isSystemActive s \<and> isRegistered (students s msg_sender)
        \<and> verifyAttendance s msg_sender (today now) \<longrightarrow>
        markAttendance s msg_sender now = Inl (Revert ''Attendance already marked for today''))"
proof (intro conjI impI)
  show "unat (today now) = unat now div 86400" by (rule unat_today)
next
  assume m: "markAttendance s msg_sender now = Inr (s', ev)"
  note r = markAttendance_Inr [OF m]
  have s': "attendanceRecords s' = (attendanceRecords s)(msg_sender :=
                 (attendanceRecords s msg_sender)(today now :=
                    \<lparr>timestamp = now, isPresent = True,
                     recordMatricNumber = matricNumber (students s msg_sender)\<rparr>))"
    using r by simp
  show "\<not> verifyAttendance s msg_sender (today now)"
    using r by (simp add: verifyAttendance_def)
  show "attendanceRecords s' msg_sender (today now)
            = \<lparr>timestamp = now, isPresent = True,
               recordMatricNumber = matricNumber (students s msg_sender)\<rparr>"
    by (simp add: s')
  show "verifyAttendance s' msg_sender (today now)"
    by (simp add: s' verifyAttendance_def)
  show "getAttendanceRecord s' msg_sender (today now) = (now, True)"
    by (simp add: s' getAttendanceRecord_def)
  show "\<forall>user date. (user, date) \<noteq> (msg_sender, today now) \<longrightarrow>
              attendanceRecords s' user date = attendanceRecords s user date"
    by (simp add: s')
  show "ev = AttendanceMarked msg_sender (matricNumber (students s msg_sender)) (today now) now"
    using r by blast
next
  assume "isSystemActive s \<and> isRegistered (students s msg_sender)
        \<and> verifyAttendance s msg_sender (today now)"
  then show "markAttendance s msg_sender now = Inl (Revert ''Attendance already marked for today'')"
    by (simp add: markAttendance_def verifyAttendance_def)
qed

text \<open>
  C7 at the timestamp 1700000000, of day 19675: the record of the student 2 is at day
  19675 and not at day 19676.
\<close>

theorem markAttendance_day_index_witness:
  "unat (today 1700000000) = 19675
   \<and> markAttendance (run (constructor 1) [(1, 1699999999, RegisterUser 2 ''CSC001'' ''Alice'')])
         2 1700000000
       = Inr (run (constructor 1) [(1, 1699999999, RegisterUser 2 ''CSC001'' ''Alice''),
                (2, 1700000000, MarkAttendance)],
              AttendanceMarked 2 ''CSC001'' 19675 1700000000)
   \<and> getAttendanceRecord (run (constructor 1) [(1, 1699999999, RegisterUser 2 ''CSC001'' ''Alice''),
                (2, 1700000000, MarkAttendance)]) 2 19675 = (1700000000, True)
   \<and> getAttendanceRecord (run (constructor 1) [(1, 1699999999, RegisterUser 2 ''CSC001'' ''Alice''),
                (2, 1700000000, MarkAttendance)]) 2 19676 = (0, False)
   \<and> markAttendance (run (constructor 1) [(1, 1699999999, RegisterUser 2 ''CSC001'' ''Alice''),
                (2, 1700000000, MarkAttendance)]) 2 1700000000
       = Inl (Revert ''Attendance already marked for today'')"
proof -
  let ?s1 = "run (constructor 1) [(1, 1699999999, RegisterUser 2 ''CSC001'' ''Alice'')]"
  let ?s2 = "run (constructor 1) [(1, 1699999999, RegisterUser 2 ''CSC001'' ''Alice''),
                (2, 1700000000, MarkAttendance)]"
  have d: "today 1700000000 = 19675" by (simp add: today_def)
  have m: "markAttendance ?s1 2 1700000000
       = Inr (?s2, AttendanceMarked 2 ''CSC001'' 19675 1700000000)"
    by (simp add: ledger_defs)
  have a: "isSystemActive ?s2 \<and> isRegistered (students ?s2 2) \<and> verifyAttendance ?s2 2 (today 1700000000)"
    by (simp add: verifyAttendance_def ledger_defs)
  have z: "getAttendanceRecord ?s2 2 19676 = (0, False)"
    by (simp add: getAttendanceRecord_def ledger_defs)
  note w = markAttendance_day_index [of 1700000000 ?s1 2 ?s2
        "AttendanceMarked 2 ''CSC001'' 19675 1700000000"]
  have "unat (today 1700000000) = unat (1700000000 :: uint256) div 86400"
    using w by (rule conjunct1)
  then have "unat (today 1700000000) = 19675" by simp
  moreover have "getAttendanceRecord ?s2 2 (today 1700000000) = (1700000000, True)"
    using w m by blast
  then have "getAttendanceRecord ?s2 2 19675 = (1700000000, True)"
    unfolding d .
  moreover have "markAttendance ?s2 2 1700000000 = Inl (Revert ''Attendance already marked for today'')"
    using markAttendance_day_index [of 1700000000 ?s2 2 ?s2
        "AttendanceMarked 2 ''CSC001'' 19675 1700000000"] a
    by blast
  ultimately show ?thesis using m z by blast
qed

subsection \<open>C8: toggling is an involution\<close>

text \<open>
  C8: \<^verbatim>\<open>toggleSystem\<close> called by the admin succeeds, negates \<^verbatim>\<open>isSystemActive\<close> and
  changes nothing else. Called an even number of times (at any block timestamps \<open>ts\<close>) it
  gives back the storage it started from, the flag included; called an odd number of
  times it gives that storage with the flag negated.
\<close>

theorem toggleSystem_parity:
  "toggleSystem s (admin s)
     = Inr (s\<lparr>isSystemActive := \<not> isSystemActive s\<rparr>, SystemStateChanged (\<not> isSystemActive s))
   \<and> (even (length ts) \<longrightarrow> run s (map (\<lambda>t. (admin s, t, ToggleSystem)) ts) = s)
   \<and> (odd (length ts) \<longrightarrow>
        run s (map (\<lambda>t. (admin s, t, ToggleSystem)) ts) = s\<lparr>isSystemActive := \<not> isSystemActive s\<rparr>)"
proof (intro conjI impI)
  show "toggleSystem s (admin s)
     = Inr (s\<lparr>isSystemActive := \<not> isSystemActive s\<rparr>, SystemStateChanged (\<not> isSystemActive s))"
    by (simp add: toggleSystem_def)
next
  assume "even (length ts)"
  then show "run s (map (\<lambda>t. (admin s, t, ToggleSystem)) ts) = s"
    by (simp add: run_toggles)
next
  assume "odd (length ts)"
  then show "run s (map (\<lambda>t. (admin s, t, ToggleSystem)) ts)
      = s\<lparr>isSystemActive := \<not> isSystemActive s\<rparr>"
    by (simp add: run_toggles)
qed

text \<open>C8 at two and at three toggles of a fresh contract.\<close>

theorem toggleSystem_parity_witness:
  "run (constructor 1) [(1, 10, ToggleSystem), (1, 20, ToggleSystem)] = constructor 1
   \<and> run (constructor 1) [(1, 10, ToggleSystem), (1, 20, ToggleSystem), (1, 30, ToggleSystem)]
       = (constructor 1)\<lparr>isSystemActive := False\<rparr>
   \<and> toggleSystem (constructor 1) 1
       = Inr ((constructor 1)\<lparr>isSystemActive := False\<rparr>, SystemStateChanged False)"
  using toggleSystem_parity [of "constructor 1" "[10, 20]"]
    toggleSystem_parity [of "constructor 1" "[10, 20, 30]"]
  by (simp add: ledger_defs)

subsection \<open>C9: registration does not depend on the active flag\<close>

text \<open>
  C9: with \<^verbatim>\<open>isSystemActive\<close> set to any value \<open>b\<close>, \<^verbatim>\<open>registerUser\<close> fails with the same
  error or succeeds with the same event and the same new storage but for the flag, which
  stays \<open>b\<close>. In a reachable state, whatever the flag, the call by the admin with a
  non-zero user, a non-empty matric number and name, the user unregistered and the matric
  number unbound, succeeds and leaves the flag as it is.
\<close>

theorem registerUser_ignores_isSystemActive:
  "registerUser (s\<lparr>isSystemActive := b\<rparr>) msg_sender now user matric nm
     = (case registerUser s msg_sender now user matric nm of
          Inl e \<Rightarrow> Inl e
        | Inr (s', ev) \<Rightarrow> Inr (s'\<lparr>isSystemActive := b\<rparr>, ev))
   \<and> (s = run (constructor deployer) txs \<and> user \<noteq> 0 \<and> matric \<noteq> [] \<and> nm \<noteq> []
        \<and> \<not> isRegistered (students s user) \<and> matricToAddress s matric = 0 \<longrightarrow>
        (\<exists>s' ev. registerUser s (admin s) now user matric nm = Inr (s', ev)
           \<and> isSystemActive s' = isSystemActive s))"
proof (intro conjI impI)
  show "registerUser (s\<lparr>isSystemActive := b\<rparr>) msg_sender now user matric nm
     = (case registerUser s msg_sender now user matric nm of
          Inl e \<Rightarrow> Inl e
        | Inr (s', ev) \<Rightarrow> Inr (s'\<lparr>isSystemActive := b\<rparr>, ev))"
    by (simp add: registerUser_def split: sum.splits)
next
  assume h: "s = run (constructor deployer) txs \<and> user \<noteq> 0 \<and> matric \<noteq> [] \<and> nm \<noteq> []
        \<and> \<not> isRegistered (students s user) \<and> matricToAddress s matric = 0"
  then have reach: "s = run (constructor deployer) txs"
    and args: "user \<noteq> 0" "matric \<noteq> []" "nm \<noteq> []"
      "\<not> isRegistered (students s user)" "matricToAddress s matric = 0"
    by blast+
  have "registry_consistent s" unfolding reach by (rule registry_consistent_run)
  then have "unat (count s) + 1 < 2 ^ 256" by (rule count_no_overflow)
  then have "checked_increment (count s) = Inr (count s + 1)"
    by (simp add: checked_increment_def)
  then show "\<exists>s' ev. registerUser s (admin s) now user matric nm = Inr (s', ev)
           \<and> isSystemActive s' = isSystemActive s"
    using args by (simp add: registerUser_def)
qed

text \<open>C9 at a contract the admin has switched off: the registration of 2 succeeds.\<close>

theorem registerUser_ignores_isSystemActive_witness:
  "\<not> isSystemActive (run (constructor 1) [(1, 1700000000, ToggleSystem)])
   \<and> (\<exists>s' ev. registerUser (run (constructor 1) [(1, 1700000000, ToggleSystem)])
                 1 1700000001 2 ''CSC001'' ''Alice'' = Inr (s', ev) \<and> \<not> isSystemActive s')
   \<and> registerUser ((constructor 1)\<lparr>isSystemActive := False\<rparr>) 1 1700000001 2 ''CSC001'' ''Alice''
       = (case registerUser (constructor 1) 1 1700000001 2 ''CSC001'' ''Alice'' of
            Inl e \<Rightarrow> Inl e | Inr (s', ev) \<Rightarrow> Inr (s'\<lparr>isSystemActive := False\<rparr>, ev))"
proof -
  let ?s = "run (constructor 1) [(1, 1700000000, ToggleSystem)]"
  have h: "(2 :: address) \<noteq> 0" "''CSC001'' \<noteq> []" "''Alice'' \<noteq> []"
    "\<not> isRegistered (students ?s 2)" "matricToAddress ?s ''CSC001'' = 0"
    and i: "\<not> isSystemActive ?s" and a: "admin ?s = 1"
    by (simp_all add: ledger_defs)
  note w = registerUser_ignores_isSystemActive
    [where s = "constructor 1" and b = False and msg_sender = 1 and now = 1700000001
       and user = 2 and matric = "''CSC001''" and nm = "''Alice''"]
  note v = registerUser_ignores_isSystemActive
    [where s = ?s and now = 1700000001 and user = 2 and matric = "''CSC001''"
       and nm = "''Alice''" and deployer = 1 and txs = "[(1, 1700000000, ToggleSystem)]"]
  have "\<exists>s' ev. registerUser ?s (admin ?s) 1700000001 2 ''CSC001'' ''Alice'' = Inr (s', ev)
           \<and> isSystemActive s' = isSystemActive ?s"
    using v h by blast
  then have "\<exists>s' ev. registerUser ?s 1 1700000001 2 ''CSC001'' ''Alice'' = Inr (s', ev)
           \<and> \<not> isSystemActive s'"
    unfolding a using i by blast
  moreover have "registerUser ((constructor 1)\<lparr>isSystemActive := False\<rparr>) 1 1700000001 2 ''CSC001'' ''Alice''
       = (case registerUser (constructor 1) 1 1700000001 2 ''CSC001'' ''Alice'' of
            Inl e \<Rightarrow> Inl e | Inr (s', ev) \<Rightarrow> Inr (s'\<lparr>isSystemActive := False\<rparr>, ev))"
    using w by (rule conjunct1)
  ultimately show ?thesis using i by blast
qed

subsection \<open>C10: the empty matric number is never bound\<close>

text \<open>
  C10: in every state reached from the constructor the empty string is bound to no
  address, so \<^verbatim>\<open>getStudentByMatric\<close> and \<^verbatim>\<open>getStudentAddressByMatric\<close> on it revert
  with ``Student not found''; \<^verbatim>\<open>registerUser\<close> never succeeds with an empty matric
  number.
\<close>

theorem empty_matric_never_bound:
  "matricToAddress (run (constructor deployer) txs) [] = 0
   \<and> getStudentByMatric (run (constructor deployer) txs) [] = Inl (Revert ''Student not found'')
   \<and> getStudentAddressByMatric (run (constructor deployer) txs) []
       = Inl (Revert ''Student not found'')
   \<and> (\<forall>r. registerUser s msg_sender now user [] nm \<noteq> Inr r)"
proof -
  have "matricToAddress (run (constructor deployer) txs) [] = 0"
    using matric_bindings_consistent_run [of deployer txs]
    by (simp add: matric_bindings_consistent_def)
  moreover have "\<forall>r. registerUser s msg_sender now user [] nm \<noteq> Inr r"
    by (simp add: registerUser_def)
  ultimately show ?thesis
    by (simp add: getStudentByMatric_def getStudentAddressByMatric_def)
qed

text \<open>
  C10 after an attempt of the admin to register 2 under the empty matric number, which
  reverts with ``Invalid matric number'', and a registration under ''CSC001''.
\<close>

theorem empty_matric_never_bound_witness:
  "getStudentByMatric (run (constructor 1)
      [(1, 1700000000, RegisterUser 2 [] ''Alice''),
       (1, 1700000001, RegisterUser 2 ''CSC001'' ''Alice'')]) [] = Inl (Revert ''Student not found'')
   \<and> getStudentAddressByMatric (run (constructor 1)
      [(1, 1700000000, RegisterUser 2 [] ''Alice''),
       (1, 1700000001, RegisterUser 2 ''CSC001'' ''Alice'')]) [] = Inl (Revert ''Student not found'')
   \<and> registerUser (constructor 1) 1 1700000000 2 [] ''Alice'' = Inl (Revert ''Invalid matric number'')"
proof -
  have "registerUser (constructor 1) 1 1700000000 2 [] ''Alice'' = Inl (Revert ''Invalid matric number'')"
    by (simp add: ledger_defs)
  then show ?thesis
    using empty_matric_never_bound [of 1 "[(1, 1700000000, RegisterUser 2 [] ''Alice''),
       (1, 1700000001, RegisterUser 2 ''CSC001'' ''Alice'')]" "constructor 1" 1 1700000000 2 "''Alice''"]
    by blast
qed

end
